theory Spec2Isabelle
  imports Main
begin

section \<open>The subtitle server: \<^verbatim>\<open>server.js\<close>\<close>

text \<open>
  The server stores an uploaded video, extracts its audio with ffmpeg, transcribes the
  audio with whisper, burns the subtitle file into the video with ffmpeg and reports the
  progress to the uploading client over a socket. This theory embeds
  \<^verbatim>\<open>processVideo\<close>, \<^verbatim>\<open>runCommand\<close>, the multer storage and the
  \<^verbatim>\<open>/upload\<close> handler.

  JavaScript strings are modelled as \<^typ>\<open>string\<close>; the few characters of the source
  outside ASCII (the pictographs that open the log messages) are written as their UTF-8
  bytes. The platform is the one of the \<^verbatim>\<open>Dockerfile\<close>: Node on Linux, the server in
  \<^verbatim>\<open>/app\<close>.
\<close>

subsection \<open>Characters the string templates of the source use\<close>

definition dquote :: char where
  "dquote = CHR 0x22"

definition squote :: char where
  "squote = CHR 0x27"

definition backslash :: char where
  "backslash = CHR 0x5C"

definition sep :: char where
  "sep = CHR ''/''"

definition dot :: char where
  "dot = CHR ''.''"

text \<open>The pictographs of the log messages, as UTF-8.\<close>

definition cross_mark :: string where
  "cross_mark = [CHR 0xE2, CHR 0x9D, CHR 0x8C]"

definition check_mark :: string where
  "check_mark = [CHR 0xE2, CHR 0x9C, CHR 0x85]"

definition musical_note :: string where
  "musical_note = [CHR 0xF0, CHR 0x9F, CHR 0x8E, CHR 0xB5]"

definition brain :: string where
  "brain = [CHR 0xF0, CHR 0x9F, CHR 0xA7, CHR 0xA0]"

definition movie_camera :: string where
  "movie_camera = [CHR 0xF0, CHR 0x9F, CHR 0x8E, CHR 0xA5]"

definition rocket :: string where
  "rocket = [CHR 0xF0, CHR 0x9F, CHR 0x9A, CHR 0x80]"

subsection \<open>Node's \<^verbatim>\<open>path\<close> module on POSIX\<close>

text \<open>
  \<^verbatim>\<open>path.join\<close>, \<^verbatim>\<open>path.basename\<close>, \<^verbatim>\<open>path.extname\<close> and
  \<^verbatim>\<open>path.dirname\<close> belong to the Node runtime. They are modelled after the POSIX
  variant of the module: the separator is \<^verbatim>\<open>/\<close>, trailing separators are ignored
  when the last component is looked for, and \<^verbatim>\<open>join\<close> normalises its result.
\<close>

text \<open>The trailing separators of a path, counted.\<close>

definition trailing_seps :: "string \<Rightarrow> nat" where
  "trailing_seps p = length (takeWhile (\<lambda>c. c = sep) (rev p))"

text \<open>The last component of a path: what lies between the last separator that is
  followed by another character and the trailing separators.\<close>

definition last_component :: "string \<Rightarrow> string" where
  "last_component p =
     rev (takeWhile (\<lambda>c. c \<noteq> sep) (dropWhile (\<lambda>c. c = sep) (rev p)))"

text \<open>\<^verbatim>\<open>path.extname(p)\<close>: from the last dot of the last component to its end; empty
  when there is no dot, when the only dot opens the component, and for \<^verbatim>\<open>..\<close>.\<close>

definition path_extname :: "string \<Rightarrow> string" where
  "path_extname p =
     (let comp = last_component p;
          startDot = length (dropWhile (\<lambda>c. c \<noteq> dot) (rev comp)) - 1
      in if dot \<notin> set comp then []
         else if startDot = 0 \<or> comp = [dot, dot] then []
         else drop startDot comp)"

text \<open>\<^verbatim>\<open>path.basename(p, suffix)\<close>: the last component, without the suffix when the
  component ends with it and is longer than it. The other branches are the corner cases
  of Node's scan: a path equal to the suffix gives the empty string, and a component that
  is only a tail of the suffix is returned with the trailing separators of the path.\<close>

definition path_basename :: "string \<Rightarrow> string \<Rightarrow> string" where
  "path_basename p suffix =
     (let comp = last_component p in
      if suffix \<noteq> [] \<and> length suffix \<le> length p then
        if suffix = p then []
        else if length suffix < length comp
                \<and> drop (length comp - length suffix) comp = suffix
          then take (length comp - length suffix) comp
        else if length comp < length suffix
                \<and> drop (length suffix - length comp) suffix = comp
          then drop (length p - trailing_seps p - length comp) p
        else comp
      else comp)"

text \<open>Splitting at the separator; two separators in a row give an empty segment.\<close>

fun split_path :: "string \<Rightarrow> string list" where
  "split_path [] = [[]]"
| "split_path (c # cs) =
     (if c = sep then [] # split_path cs
      else (case split_path cs of
              [] \<Rightarrow> [[c]]
            | s # ss \<Rightarrow> (c # s) # ss))"

fun join_segments :: "string list \<Rightarrow> string" where
  "join_segments [] = []"
| "join_segments [s] = s"
| "join_segments (s # t # ss) = s @ [sep] @ join_segments (t # ss)"

text \<open>One step of Node's \<^verbatim>\<open>normalizeString\<close>: empty segments and \<^verbatim>\<open>.\<close> are
  dropped, \<^verbatim>\<open>..\<close> removes the segment before it, and is kept only in a relative
  path that has nothing left to remove.\<close>

definition push_segment :: "bool \<Rightarrow> string list \<Rightarrow> string \<Rightarrow> string list" where
  "push_segment allowAboveRoot acc seg =
     (if seg = [] \<or> seg = [dot] then acc
      else if seg = [dot, dot] then
        (if acc \<noteq> [] \<and> last acc \<noteq> [dot, dot] then butlast acc
         else if allowAboveRoot then acc @ [seg]
         else acc)
      else acc @ [seg])"

definition normalizeString :: "string \<Rightarrow> bool \<Rightarrow> string" where
  "normalizeString p allowAboveRoot =
     join_segments (foldl (push_segment allowAboveRoot) [] (split_path p))"

definition path_normalize :: "string \<Rightarrow> string" where
  "path_normalize p =
     (if p = [] then [dot]
      else
        let isAbsolute = (hd p = sep);
            trailingSeparator = (last p = sep);
            q = normalizeString p (\<not> isAbsolute)
        in if q = [] then
             (if isAbsolute then [sep]
              else if trailingSeparator then [dot, sep] else [dot])
           else (if isAbsolute then [sep] else []) @ q
                @ (if trailingSeparator then [sep] else []))"

text \<open>\<^verbatim>\<open>path.join(...)\<close>: the non-empty arguments, joined by the separator and
  normalised; \<^verbatim>\<open>.\<close> when nothing is left.\<close>

definition path_join :: "string list \<Rightarrow> string" where
  "path_join args =
     (let joined = join_segments (filter (\<lambda>a. a \<noteq> []) args)
      in if joined = [] then [dot] else path_normalize joined)"

text \<open>\<^verbatim>\<open>path.dirname(p)\<close>: the path up to the separator before the last component.\<close>

definition path_dirname :: "string \<Rightarrow> string" where
  "path_dirname p =
     (if p = [] then [dot]
      else
        let hasRoot = (hd p = sep);
            q = rev (dropWhile (\<lambda>c. c \<noteq> sep) (dropWhile (\<lambda>c. c = sep) (rev p)));
            end = length q - 1
        in if length q \<le> 1 then (if hasRoot then [sep] else [dot])
           else if hasRoot \<and> end = 1 then [sep, sep]
           else take end p)"

subsection \<open>Directories, platform and the ffmpeg executable\<close>

text \<open>\<^verbatim>\<open>__dirname\<close>: the \<^verbatim>\<open>Dockerfile\<close> copies \<^verbatim>\<open>server.js\<close> into its
  working directory \<^verbatim>\<open>/app\<close>.\<close>

definition server_dirname :: string where
  "server_dirname = ''/app''"

definition UPLOADS_DIR :: string where
  "UPLOADS_DIR = path_join [server_dirname, ''uploads'']"

definition OUTPUT_DIR :: string where
  "OUTPUT_DIR = path_join [server_dirname, ''outputs'']"

text \<open>\<^verbatim>\<open>process.platform\<close> in the \<^verbatim>\<open>node:20\<close> image.\<close>

definition platform :: string where
  "platform = ''linux''"

definition isWin :: bool where
  "isWin = (platform = ''win32'')"

fun join_backslash :: "string list \<Rightarrow> string" where
  "join_backslash [] = []"
| "join_backslash [s] = s"
| "join_backslash (s # t # ss) = s @ [backslash] @ join_backslash (t # ss)"

definition ffmpegPath :: string where
  "ffmpegPath =
     (if isWin
      then join_backslash [''C:'', ''Users'', ''aatmi'', ''AppData'', ''Local'', ''Microsoft'',
             ''WinGet'', ''Packages'',
             ''Gyan.FFmpeg_Microsoft.Winget.Source_8wekyb3d8bbwe'',
             ''ffmpeg-8.0.1-full_build'', ''bin'', ''ffmpeg.exe'']
      else ''ffmpeg'')"

subsection \<open>Events, errors and the state of the server\<close>

text \<open>The four events the server emits to a socket: \<^verbatim>\<open>log\<close>, \<^verbatim>\<open>progress\<close>,
  \<^verbatim>\<open>complete\<close> (the payload is the \<^verbatim>\<open>downloadUrl\<close>) and \<^verbatim>\<open>error\<close>.\<close>

datatype event = LogEv string | ProgressEv int | CompleteEv string | ErrorEv string

text \<open>What can be thrown: the error \<^verbatim>\<open>exec\<close> hands to its callback, the
  \<^verbatim>\<open>Error\<close> of line 133, the \<^verbatim>\<open>TypeError\<close> of reading \<^verbatim>\<open>emit\<close> on
  \<^verbatim>\<open>undefined\<close>, and the \<^verbatim>\<open>ENOENT\<close> of \<^verbatim>\<open>unlinkSync\<close> and
  \<^verbatim>\<open>copyFileSync\<close> on a path that does not exist.\<close>

datatype error = ExecError string | SrtNotGenerated | TypeError | ENOENT string

fun message :: "error \<Rightarrow> string" where
  "message (ExecError msg) = msg"
| "message SrtNotGenerated = ''SRT file was not generated.''"
| "message TypeError =
     ''Cannot read properties of undefined (reading '' @ [squote] @ ''emit'' @ [squote] @ '')''"
| "message (ENOENT p) =
     ''ENOENT: no such file or directory, '' @ [squote] @ p @ [squote]"

text \<open>A socket is identified by its id. The state holds the files on disk (path to
  content), the events emitted so far with the socket they went to, the command lines
  handed to \<^verbatim>\<open>exec\<close>, the lines written to the console, \<^verbatim>\<open>process.env.PATH\<close>
  and the ids of the connected sockets (\<^verbatim>\<open>io.sockets.sockets\<close>).\<close>

type_synonym socket = string

type_synonym filesystem = "string \<rightharpoonup> string"

record state =
  files :: filesystem
  emitted :: "(socket \<times> event) list"
  commands :: "string list"
  console :: "string list"
  env_PATH :: string
  sockets :: "socket set"

text \<open>A statement of the source: it runs in a state and either throws or returns a
  value, in both cases with the state it has reached.\<close>

type_synonym 'a action = "state \<Rightarrow> (error + 'a) \<times> state"

definition returnA :: "'a \<Rightarrow> 'a action" where
  "returnA x s = (Inr x, s)"

definition throwA :: "error \<Rightarrow> 'a action" where
  "throwA e s = (Inl e, s)"

definition bindA :: "'a action \<Rightarrow> ('a \<Rightarrow> 'b action) \<Rightarrow> 'b action" where
  "bindA m f s = (case m s of (Inl e, s') \<Rightarrow> (Inl e, s') | (Inr x, s') \<Rightarrow> f x s')"

definition thenA :: "'a action \<Rightarrow> 'b action \<Rightarrow> 'b action" where
  "thenA m n = bindA m (\<lambda>_. n)"

definition catchA :: "'a action \<Rightarrow> (error \<Rightarrow> 'a action) \<Rightarrow> 'a action" where
  "catchA m h s = (case m s of (Inl e, s') \<Rightarrow> h e s' | (Inr x, s') \<Rightarrow> (Inr x, s'))"

text \<open>\<^verbatim>\<open>socket.emit(...)\<close>: with \<^verbatim>\<open>socket\<close> undefined the property access
  throws.\<close>

definition emit :: "socket option \<Rightarrow> event \<Rightarrow> unit action" where
  "emit socket ev s =
     (case socket of
        None \<Rightarrow> (Inl TypeError, s)
      | Some k \<Rightarrow> (Inr (), s\<lparr>emitted := emitted s @ [(k, ev)]\<rparr>))"

definition console_log :: "string \<Rightarrow> unit action" where
  "console_log line s = (Inr (), s\<lparr>console := console s @ [line]\<rparr>)"

subsection \<open>The file system calls\<close>

definition existsSync :: "string \<Rightarrow> state \<Rightarrow> bool" where
  "existsSync p s = (files s p \<noteq> None)"

definition unlinkSync :: "string \<Rightarrow> unit action" where
  "unlinkSync p s =
     (if files s p = None then (Inl (ENOENT p), s)
      else (Inr (), s\<lparr>files := (files s)(p := None)\<rparr>))"

definition copyFileSync :: "string \<Rightarrow> string \<Rightarrow> unit action" where
  "copyFileSync src dest s =
     (case files s src of
        None \<Rightarrow> (Inl (ENOENT src), s)
      | Some content \<Rightarrow> (Inr (), s\<lparr>files := (files s)(dest \<mapsto> content)\<rparr>))"

subsection \<open>\<^verbatim>\<open>runCommand\<close>\<close>

text \<open>The external tools are opaque: \<^verbatim>\<open>exec\<close> is a parameter that, for a command
  line and the files on disk, gives the error message or the standard output of the child
  process, and the files it leaves behind.\<close>

type_synonym exec_fn = "string \<Rightarrow> filesystem \<Rightarrow> (string + string) \<times> filesystem"

definition exec_child :: "exec_fn \<Rightarrow> string \<Rightarrow> (string + string) action" where
  "exec_child exec command s =
     (Inr (fst (exec command (files s))),
      s\<lparr>files := snd (exec command (files s)), commands := commands s @ [command]\<rparr>)"

definition runCommand :: "exec_fn \<Rightarrow> string \<Rightarrow> socket option \<Rightarrow> string action" where
  "runCommand exec command socket =
     bindA (exec_child exec command) (\<lambda>outcome.
       case outcome of
         Inl msg \<Rightarrow>
           thenA (if socket \<noteq> None
                  then emit socket (LogEv (cross_mark @ '' Error: '' @ msg))
                  else returnA ())
                 (throwA (ExecError msg))
       | Inr stdout \<Rightarrow> returnA stdout)"

subsection \<open>The paths and command lines of a job\<close>

text \<open>The constants that \<^verbatim>\<open>processVideo\<close> computes from \<^verbatim>\<open>filePath\<close>, each under
  the name it has in the source. \<open>quoted p\<close> is the template \<^verbatim>\<open>"${p}"\<close>: the
  text between two double quotes, unchanged.\<close>

definition quoted :: "string \<Rightarrow> string" where
  "quoted p = [dquote] @ p @ [dquote]"

definition jobId :: "string \<Rightarrow> string" where
  "jobId filePath = path_basename filePath (path_extname filePath)"

definition audioFile :: "string \<Rightarrow> string" where
  "audioFile filePath = path_join [UPLOADS_DIR, jobId filePath @ ''.wav'']"

definition finalVideoName :: "string \<Rightarrow> string" where
  "finalVideoName filePath = ''subtitled_'' @ jobId filePath @ ''.mp4''"

definition finalVideo :: "string \<Rightarrow> string" where
  "finalVideo filePath = path_join [OUTPUT_DIR, finalVideoName filePath]"

definition extractCmd :: "string \<Rightarrow> string" where
  "extractCmd filePath =
     quoted ffmpegPath @ '' -y -i '' @ quoted filePath
     @ '' -ar 16000 -ac 1 -c:a pcm_s16le '' @ quoted (audioFile filePath)"

definition whisperCmd :: "string \<Rightarrow> string" where
  "whisperCmd filePath =
     ''whisper '' @ quoted (audioFile filePath)
     @ '' --model base --output_format srt --output_dir '' @ quoted OUTPUT_DIR"

definition generatedSrt :: "string \<Rightarrow> string" where
  "generatedSrt filePath = path_join [OUTPUT_DIR, jobId filePath @ ''.srt'']"

definition localSrtName :: "string \<Rightarrow> string" where
  "localSrtName filePath = ''temp_'' @ jobId filePath @ ''.srt''"

definition localSrt :: "string \<Rightarrow> string" where
  "localSrt filePath = path_join [server_dirname, localSrtName filePath]"

definition style :: string where
  "style = ''Fontname=Arial,Fontsize=10,PrimaryColour=&H00FFFFFF,OutlineColour=&H00000000,BorderStyle=1,Outline=1,Shadow=0,Bold=0,MarginV=10,Alignment=2''"

definition burnCmd :: "string \<Rightarrow> string" where
  "burnCmd filePath =
     quoted ffmpegPath @ '' -y -i '' @ quoted filePath @ '' -vf ''
     @ quoted (''subtitles='' @ [squote] @ localSrtName filePath @ [squote]
               @ '':force_style='' @ [squote] @ style @ [squote])
     @ '' '' @ quoted (finalVideo filePath)"

definition downloadUrl :: "string \<Rightarrow> string" where
  "downloadUrl filePath = ''/download/'' @ finalVideoName filePath"

subsection \<open>\<^verbatim>\<open>processVideo\<close>\<close>

text \<open>The closure \<^verbatim>\<open>cleanup\<close> of lines 95 to 97.\<close>

definition cleanup :: "string \<Rightarrow> unit action" where
  "cleanup filePath s =
     (if existsSync (audioFile filePath) s then unlinkSync (audioFile filePath) s
      else returnA () s)"

text \<open>The removal of the temporary subtitle copy, line 146.\<close>

definition remove_temp_srt :: "string \<Rightarrow> unit action" where
  "remove_temp_srt filePath s =
     (if existsSync (localSrt filePath) s then unlinkSync (localSrt filePath) s
      else returnA () s)"

text \<open>The cleanup of the workspace: the two removals that close the \<^verbatim>\<open>try\<close>, line
  146 and the call of \<^verbatim>\<open>cleanup\<close> of line 155, one after the other. The statements
  between them only emit events.\<close>

definition workspace_cleanup :: "string \<Rightarrow> unit action" where
  "workspace_cleanup filePath = thenA (remove_temp_srt filePath) (cleanup filePath)"

text \<open>The assignment to \<^verbatim>\<open>process.env.PATH\<close> of line 113.\<close>

definition prepend_PATH :: "string \<Rightarrow> unit action" where
  "prepend_PATH ffmpegDir s = (Inr (), s\<lparr>env_PATH := ffmpegDir @ '';'' @ env_PATH s\<rparr>)"

text \<open>The body of the \<^verbatim>\<open>try\<close>, cut at the three steps the source's comments name.\<close>

definition step1 :: "exec_fn \<Rightarrow> string \<Rightarrow> socket option \<Rightarrow> unit action" where
  "step1 exec filePath socket =
     thenA (emit socket (LogEv (musical_note @ '' Step 1: Extracting audio...'')))
    (thenA (emit socket (ProgressEv 10))
    (thenA (runCommand exec (extractCmd filePath) socket)
           (emit socket (LogEv (check_mark @ '' Audio extracted.'')))))"

definition step2 :: "exec_fn \<Rightarrow> string \<Rightarrow> socket option \<Rightarrow> unit action" where
  "step2 exec filePath socket =
     thenA (emit socket (LogEv (brain @ '' Step 2: Generating subtitles (Whisper)...'')))
    (thenA (emit socket (ProgressEv 30))
    (thenA (if isWin then prepend_PATH (path_dirname ffmpegPath) else returnA ())
    (thenA (runCommand exec (whisperCmd filePath) socket)
           (emit socket (LogEv (check_mark @ '' Subtitles generated.''))))))"

definition step3 :: "exec_fn \<Rightarrow> string \<Rightarrow> socket option \<Rightarrow> unit action" where
  "step3 exec filePath socket =
     thenA (emit socket (LogEv (movie_camera @ '' Step 3: Burning subtitles into video...'')))
    (thenA (emit socket (ProgressEv 60))
    (thenA (\<lambda>s. if existsSync (generatedSrt filePath) s
                then copyFileSync (generatedSrt filePath) (localSrt filePath) s
                else throwA SrtNotGenerated s)
    (thenA (runCommand exec (burnCmd filePath) socket)
    (thenA (remove_temp_srt filePath)
    (thenA (emit socket (LogEv (check_mark @ '' Video processing complete!'')))
    (thenA (emit socket (ProgressEv 100))
    (thenA (emit socket (CompleteEv (downloadUrl filePath)))
           (cleanup filePath))))))))"

definition try_block :: "exec_fn \<Rightarrow> string \<Rightarrow> socket option \<Rightarrow> unit action" where
  "try_block exec filePath socket =
     thenA (step1 exec filePath socket)
    (thenA (step2 exec filePath socket)
           (step3 exec filePath socket))"

definition catch_block :: "socket option \<Rightarrow> error \<Rightarrow> unit action" where
  "catch_block socket err =
     thenA (console_log (message err))
    (thenA (emit socket (ErrorEv (message err)))
           (emit socket (LogEv (cross_mark @ '' Error: '' @ message err))))"

text \<open>\<^verbatim>\<open>processVideo\<close> is an \<^verbatim>\<open>async\<close> function: \<open>Inr ()\<close> is its promise
  resolved, \<open>Inl e\<close> its promise rejected with \<open>e\<close>.\<close>

definition processVideo :: "exec_fn \<Rightarrow> string \<Rightarrow> string \<Rightarrow> socket option \<Rightarrow> unit action" where
  "processVideo exec filePath originalName socket =
     catchA (try_block exec filePath socket) (catch_block socket)"

subsection \<open>The multer storage and the \<^verbatim>\<open>/upload\<close> handler\<close>

text \<open>A number in a string template: its decimal digits.\<close>

fun number_string :: "nat \<Rightarrow> string" where
  "number_string n =
     (if n < 10 then [''0123456789'' ! n]
      else number_string (n div 10) @ [''0123456789'' ! (n mod 10)])"

text \<open>The \<^verbatim>\<open>filename\<close> callback of the storage; \<open>now\<close> is \<^verbatim>\<open>Date.now()\<close>.\<close>

definition storage_filename :: "nat \<Rightarrow> string \<Rightarrow> string" where
  "storage_filename now originalname = number_string now @ ''-'' @ originalname"

definition storage_destination :: string where
  "storage_destination = UPLOADS_DIR"

text \<open>\<^verbatim>\<open>req.file\<close> as multer's disk storage fills it: the stored file is
  \<^verbatim>\<open>filename\<close> in \<^verbatim>\<open>destination\<close>.\<close>

record req_file =
  originalname :: string
  filename :: string
  path :: string

definition stored_file :: "nat \<Rightarrow> string \<Rightarrow> req_file" where
  "stored_file now name =
     \<lparr>originalname = name,
      filename = storage_filename now name,
      path = path_join [storage_destination, storage_filename now name]\<rparr>"

record request =
  reqFile :: "req_file option"
  socketId :: "string option"

text \<open>A response: the status and the fields of the JSON body.\<close>

datatype response = Response nat "(string \<times> string) list"

text \<open>\<^verbatim>\<open>io.sockets.sockets.get(socketId)\<close>.\<close>

definition sockets_get :: "string option \<Rightarrow> state \<Rightarrow> socket option" where
  "sockets_get sid s =
     (case sid of
        None \<Rightarrow> None
      | Some i \<Rightarrow> if i \<in> sockets s then Some i else None)"

text \<open>The handler answers without waiting for \<^verbatim>\<open>processVideo\<close>. The model runs the
  job to its end and returns, beside the response, how the promise that the handler drops
  was settled, and the state the job leaves.\<close>

definition upload :: "exec_fn \<Rightarrow> request \<Rightarrow> state \<Rightarrow> (response \<times> (error + unit) option) \<times> state" where
  "upload exec req s =
     (case reqFile req of
        None \<Rightarrow> ((Response 400 [(''error'', ''No file uploaded'')], None), s)
      | Some f \<Rightarrow>
          let socket = sockets_get (socketId req) s;
              s1 = snd ((if socket = None
                         then console_log (''Socket not found for ID: ''
                                @ (case socketId req of None \<Rightarrow> ''undefined'' | Some i \<Rightarrow> i))
                         else emit socket (LogEv (rocket @ '' Received file. Starting process...''))) s);
              job = processVideo exec (path f) (originalname f) socket s1
          in ((Response 200 [(''message'', ''Upload successful, processing started''),
                             (''jobId'', filename f)],
               Some (fst job)),
              snd job))"

subsection \<open>What a job did\<close>

text \<open>The events a call of \<^verbatim>\<open>processVideo\<close> emitted and the command lines it handed
  to \<^verbatim>\<open>exec\<close>: what the call added to the state it started in.\<close>

definition job_events :: "exec_fn \<Rightarrow> string \<Rightarrow> string \<Rightarrow> socket option \<Rightarrow> state \<Rightarrow> event list" where
  "job_events exec filePath originalName socket s =
     map snd (drop (length (emitted s))
                   (emitted (snd (processVideo exec filePath originalName socket s))))"

definition job_commands :: "exec_fn \<Rightarrow> string \<Rightarrow> string \<Rightarrow> socket option \<Rightarrow> state \<Rightarrow> string list" where
  "job_commands exec filePath originalName socket s =
     drop (length (commands s))
          (commands (snd (processVideo exec filePath originalName socket s)))"

fun progress_of :: "event list \<Rightarrow> int list" where
  "progress_of [] = []"
| "progress_of (ProgressEv n # evs) = n # progress_of evs"
| "progress_of (ev # evs) = progress_of evs"

fun errors_of :: "event list \<Rightarrow> string list" where
  "errors_of [] = []"
| "errors_of (ErrorEv msg # evs) = msg # errors_of evs"
| "errors_of (ev # evs) = errors_of evs"

fun completions_of :: "event list \<Rightarrow> string list" where
  "completions_of [] = []"
| "completions_of (CompleteEv url # evs) = url # completions_of evs"
| "completions_of (ev # evs) = completions_of evs"

subsection \<open>How the shell reads a command line\<close>

text \<open>
  \<^verbatim>\<open>exec\<close> hands the command line to \<^verbatim>\<open>/bin/sh -c\<close>, which splits it into the
  words the tool receives as its arguments. The splitting is modelled for the quoting the
  command lines of this server use: blanks separate words, a double or a single quote
  opens a part that runs to the next quote of its kind, and a backslash keeps the
  character after it (in double quotes only before a double quote, a backslash, a dollar
  or a backquote). Expansions and operators of the shell are not modelled.
\<close>

datatype quoting = Unquoted | Escaped | DoubleQuoted | EscapedDouble | SingleQuoted

definition word_of :: "string option \<Rightarrow> string" where
  "word_of w = (case w of None \<Rightarrow> [] | Some cur \<Rightarrow> cur)"

fun split_words :: "quoting \<Rightarrow> string option \<Rightarrow> string \<Rightarrow> string list" where
  "split_words q w [] = (case w of None \<Rightarrow> [] | Some cur \<Rightarrow> [cur])"
| "split_words Unquoted w (c # cs) =
     (if c = CHR '' '' then
        (case w of
           None \<Rightarrow> split_words Unquoted None cs
         | Some cur \<Rightarrow> cur # split_words Unquoted None cs)
      else if c = dquote then split_words DoubleQuoted (Some (word_of w)) cs
      else if c = squote then split_words SingleQuoted (Some (word_of w)) cs
      else if c = backslash then split_words Escaped (Some (word_of w)) cs
      else split_words Unquoted (Some (word_of w @ [c])) cs)"
| "split_words Escaped w (c # cs) = split_words Unquoted (Some (word_of w @ [c])) cs"
| "split_words DoubleQuoted w (c # cs) =
     (if c = dquote then split_words Unquoted w cs
      else if c = backslash then split_words EscapedDouble w cs
      else split_words DoubleQuoted (Some (word_of w @ [c])) cs)"
| "split_words EscapedDouble w (c # cs) =
     (if c = dquote \<or> c = backslash \<or> c = CHR ''$'' \<or> c = CHR 0x60
      then split_words DoubleQuoted (Some (word_of w @ [c])) cs
      else split_words DoubleQuoted (Some (word_of w @ [backslash, c])) cs)"
| "split_words SingleQuoted w (c # cs) =
     (if c = squote then split_words Unquoted w cs
      else split_words SingleQuoted (Some (word_of w @ [c])) cs)"

definition shell_words :: "string \<Rightarrow> string list" where
  "shell_words command = split_words Unquoted None command"

subsection \<open>A concrete upload\<close>

text \<open>The upload of \<^verbatim>\<open>movie.mp4\<close> at the time 1700000000000, a server in which the
  socket \<^verbatim>\<open>abc\<close> is connected and the upload is on disk, and three behaviours of the
  tools: every tool works and writes its output file; every tool reports success and
  writes nothing; every tool fails.\<close>

definition movie_path :: string where
  "movie_path = path (stored_file 1700000000000 ''movie.mp4'')"

definition state0 :: state where
  "state0 =
     \<lparr>files = [movie_path \<mapsto> ''video''],
      emitted = [],
      commands = [],
      console = [],
      env_PATH = ''/usr/local/bin:/usr/bin:/bin'',
      sockets = {''abc''}\<rparr>"

definition tools_ok :: exec_fn where
  "tools_ok command fs =
     (if command = extractCmd movie_path
        then (Inr [], fs(audioFile movie_path \<mapsto> ''audio''))
      else if command = whisperCmd movie_path
        then (Inr [], fs(generatedSrt movie_path \<mapsto> ''subtitles''))
      else if command = burnCmd movie_path
        then (Inr [], fs(finalVideo movie_path \<mapsto> ''video with subtitles''))
      else (Inl ''command not found'', fs))"

definition tools_silent :: exec_fn where
  "tools_silent command fs = (Inr [], fs)"

definition tools_failing :: exec_fn where
  "tools_failing command fs = (Inl ''Command failed'', fs)"

text \<open>An original file name with a double quote in it, \<^verbatim>\<open>a" "b.mp4\<close>, uploaded at
  the same time.\<close>

definition quote_name :: string where
  "quote_name = ''a'' @ [dquote] @ '' '' @ [dquote] @ ''b.mp4''"

definition quote_path :: string where
  "quote_path = path (stored_file 1700000000000 quote_name)"

text \<open>The files of a job when its burn command has returned: the audio file and the
  temporary subtitle copy are on disk.\<close>

definition leftover_state :: state where
  "leftover_state =
     state0\<lparr>files := [audioFile movie_path \<mapsto> ''audio'',
                      localSrt movie_path \<mapsto> ''subtitles'']\<rparr>"

text \<open>Tools of which only the audio extraction works.\<close>

definition tools_extract_only :: exec_fn where
  "tools_extract_only command fs =
     (if command = extractCmd movie_path
        then (Inr [], fs(audioFile movie_path \<mapsto> ''audio''))
      else (Inl ''Command failed'', fs))"

section \<open>Properties\<close>

subsection \<open>The steps of the pipeline, with a subscriber\<close>

lemmas action_defs =
  returnA_def throwA_def bindA_def thenA_def catchA_def emit_def console_log_def
  exec_child_def runCommand_def

lemma isWin_False: "isWin = False"
  by (simp add: isWin_def platform_def)

text \<open>The three command lines of a job differ from each other.\<close>

lemma whisperCmd_neq_extractCmd: "whisperCmd fp \<noteq> extractCmd fp"
  by (simp add: whisperCmd_def extractCmd_def quoted_def dquote_def)

lemma whisperCmd_neq_burnCmd: "whisperCmd fp \<noteq> burnCmd fp"
  by (simp add: whisperCmd_def burnCmd_def quoted_def dquote_def)

lemma burnCmd_neq_extractCmd: "burnCmd fp \<noteq> extractCmd fp"
  by (simp add: burnCmd_def extractCmd_def quoted_def)

lemmas cmd_neqs =
  whisperCmd_neq_extractCmd burnCmd_neq_extractCmd whisperCmd_neq_burnCmd[symmetric]

lemma step1_Some:
  "step1 exec fp (Some k) s =
     (case fst (exec (extractCmd fp) (files s)) of
        Inl msg \<Rightarrow>
          (Inl (ExecError msg),
           s\<lparr>files := snd (exec (extractCmd fp) (files s)),
             commands := commands s @ [extractCmd fp],
             emitted := emitted s @
               [(k, LogEv (musical_note @ '' Step 1: Extracting audio...'')),
                (k, ProgressEv 10),
                (k, LogEv (cross_mark @ '' Error: '' @ msg))]\<rparr>)
      | Inr out \<Rightarrow>
          (Inr (),
           s\<lparr>files := snd (exec (extractCmd fp) (files s)),
             commands := commands s @ [extractCmd fp],
             emitted := emitted s @
               [(k, LogEv (musical_note @ '' Step 1: Extracting audio...'')),
                (k, ProgressEv 10),
                (k, LogEv (check_mark @ '' Audio extracted.''))]\<rparr>))"
  by (simp add: step1_def action_defs split: sum.splits)

lemma step2_Some:
  "step2 exec fp (Some k) s =
     (case fst (exec (whisperCmd fp) (files s)) of
        Inl msg \<Rightarrow>
          (Inl (ExecError msg),
           s\<lparr>files := snd (exec (whisperCmd fp) (files s)),
             commands := commands s @ [whisperCmd fp],
             emitted := emitted s @
               [(k, LogEv (brain @ '' Step 2: Generating subtitles (Whisper)...'')),
                (k, ProgressEv 30),
                (k, LogEv (cross_mark @ '' Error: '' @ msg))]\<rparr>)
      | Inr out \<Rightarrow>
          (Inr (),
           s\<lparr>files := snd (exec (whisperCmd fp) (files s)),
             commands := commands s @ [whisperCmd fp],
             emitted := emitted s @
               [(k, LogEv (brain @ '' Step 2: Generating subtitles (Whisper)...'')),
                (k, ProgressEv 30),
                (k, LogEv (check_mark @ '' Subtitles generated.''))]\<rparr>))"
  by (simp add: step2_def isWin_False action_defs split: sum.splits)

text \<open>A guarded \<^verbatim>\<open>unlinkSync\<close> never throws: \<^verbatim>\<open>cleanup\<close> takes the audio file away
  when it is there and changes nothing else.\<close>

lemma cleanup_eq:
  "cleanup fp s = (Inr (), s\<lparr>files := (files s)(audioFile fp := None)\<rparr>)"
  by (simp add: cleanup_def existsSync_def unlinkSync_def returnA_def fun_upd_idem)

lemma step3_Some:
  "step3 exec fp (Some k) s =
     (case files s (generatedSrt fp) of
        None \<Rightarrow>
          (Inl SrtNotGenerated,
           s\<lparr>emitted := emitted s @
               [(k, LogEv (movie_camera @ '' Step 3: Burning subtitles into video...'')),
                (k, ProgressEv 60)]\<rparr>)
      | Some content \<Rightarrow>
          (case fst (exec (burnCmd fp) ((files s)(localSrt fp \<mapsto> content))) of
             Inl msg \<Rightarrow>
               (Inl (ExecError msg),
                s\<lparr>files := snd (exec (burnCmd fp) ((files s)(localSrt fp \<mapsto> content))),
                  commands := commands s @ [burnCmd fp],
                  emitted := emitted s @
                    [(k, LogEv (movie_camera @ '' Step 3: Burning subtitles into video...'')),
                     (k, ProgressEv 60),
                     (k, LogEv (cross_mark @ '' Error: '' @ msg))]\<rparr>)
           | Inr out \<Rightarrow>
               (Inr (),
                s\<lparr>files := (snd (exec (burnCmd fp) ((files s)(localSrt fp \<mapsto> content))))
                            (localSrt fp := None, audioFile fp := None),
                  commands := commands s @ [burnCmd fp],
                  emitted := emitted s @
                    [(k, LogEv (movie_camera @ '' Step 3: Burning subtitles into video...'')),
                     (k, ProgressEv 60),
                     (k, LogEv (check_mark @ '' Video processing complete!'')),
                     (k, ProgressEv 100),
                     (k, CompleteEv (downloadUrl fp))]\<rparr>)))"
  by (simp add: step3_def cleanup_eq remove_temp_srt_def existsSync_def unlinkSync_def
        copyFileSync_def action_defs fun_upd_idem split: sum.splits option.splits)

lemma catch_block_Some:
  "catch_block (Some k) err s =
     (Inr (),
      s\<lparr>console := console s @ [message err],
        emitted := emitted s @
          [(k, ErrorEv (message err)),
           (k, LogEv (cross_mark @ '' Error: '' @ message err))]\<rparr>)"
  by (simp add: catch_block_def action_defs)

text \<open>Without a subscriber the first emission throws, and so does the handler.\<close>

lemma try_block_None: "try_block exec fp None s = (Inl TypeError, s)"
  by (simp add: try_block_def step1_def action_defs)

lemma job_None:
  "job_commands exec fp name None s = [] \<and> job_events exec fp name None s = []"
  by (simp add: job_commands_def job_events_def processVideo_def try_block_None
        catch_block_def action_defs)

lemmas run_defs =
  job_commands_def job_events_def processVideo_def try_block_def
  thenA_def bindA_def catchA_def
  step1_Some step2_Some step3_Some catch_block_Some

subsection \<open>The paths of the concrete upload\<close>

lemmas path_defs =
  path_join_def path_normalize_def normalizeString_def push_segment_def
  path_basename_def path_extname_def last_component_def trailing_seps_def sep_def dot_def

lemma stored_movie:
  "stored_file 1700000000000 ''movie.mp4'' =
     \<lparr>originalname = ''movie.mp4'',
      filename = ''1700000000000-movie.mp4'',
      path = ''/app/uploads/1700000000000-movie.mp4''\<rparr>"
  by (simp add: stored_file_def storage_filename_def storage_destination_def
        UPLOADS_DIR_def server_dirname_def path_defs)

lemma movie_path_eq: "movie_path = ''/app/uploads/1700000000000-movie.mp4''"
  by (simp add: movie_path_def stored_movie)

lemma movie_jobId:
  "jobId ''/app/uploads/1700000000000-movie.mp4'' = ''1700000000000-movie''"
  by (simp add: jobId_def path_defs)

lemma movie_audioFile:
  "audioFile ''/app/uploads/1700000000000-movie.mp4''
     = ''/app/uploads/1700000000000-movie.wav''"
  by (simp add: audioFile_def movie_jobId UPLOADS_DIR_def server_dirname_def path_defs)

lemma movie_generatedSrt:
  "generatedSrt ''/app/uploads/1700000000000-movie.mp4''
     = ''/app/outputs/1700000000000-movie.srt''"
  by (simp add: generatedSrt_def movie_jobId OUTPUT_DIR_def server_dirname_def path_defs)

lemma movie_localSrt:
  "localSrt ''/app/uploads/1700000000000-movie.mp4''
     = ''/app/temp_1700000000000-movie.srt''"
  by (simp add: localSrt_def localSrtName_def movie_jobId server_dirname_def path_defs)

lemma movie_finalVideo:
  "finalVideo ''/app/uploads/1700000000000-movie.mp4''
     = ''/app/outputs/subtitled_1700000000000-movie.mp4''"
  by (simp add: finalVideo_def finalVideoName_def movie_jobId OUTPUT_DIR_def
        server_dirname_def path_defs)

lemma movie_downloadUrl:
  "downloadUrl ''/app/uploads/1700000000000-movie.mp4''
     = ''/download/subtitled_1700000000000-movie.mp4''"
  by (simp add: downloadUrl_def finalVideoName_def movie_jobId)

lemma movie_final_relative:
  "path_join [server_dirname, ''outputs/subtitled_1700000000000-movie.mp4'']
     = ''/app/outputs/subtitled_1700000000000-movie.mp4''"
  by (simp add: server_dirname_def path_defs)

lemmas movie_paths =
  movie_path_eq movie_audioFile movie_generatedSrt movie_localSrt movie_finalVideo

lemma quote_path_eq:
  "quote_path = ''/app/uploads/1700000000000-a'' @ [dquote] @ '' '' @ [dquote] @ ''b.mp4''"
  by (simp add: quote_path_def quote_name_def stored_file_def storage_filename_def
        storage_destination_def UPLOADS_DIR_def server_dirname_def path_defs dquote_def)

text \<open>With the tools that work, the \<^verbatim>\<open>try\<close> of the concrete upload runs to its end.\<close>

lemma tools_ok_succeeds:
  "fst (try_block tools_ok movie_path (Some ''abc'') state0) = Inr ()"
  by (simp add: try_block_def thenA_def bindA_def step1_Some step2_Some step3_Some
        tools_ok_def cmd_neqs)

subsection \<open>A job without a subscriber\<close>

text \<open>
  Claim C1: a job whose upload could not be matched to a live subscriber neither raises
  nor crashes, every emission is a silent no-op, and the job runs as it would with a
  subscriber.

  The code does not do this. \<^verbatim>\<open>processVideo\<close> calls \<^verbatim>\<open>socket.emit\<close> without the
  guard that \<^verbatim>\<open>runCommand\<close> and the upload handler have: the first emission of the
  \<^verbatim>\<open>try\<close> throws, the \<^verbatim>\<open>catch\<close> emits again and throws again, and the promise is
  rejected. No command was run, and only the console line of the \<^verbatim>\<open>catch\<close> was added
  to the state.
\<close>

theorem processVideo_without_subscriber:
  "processVideo exec filePath originalName None s =
     (Inl TypeError, s\<lparr>console := console s @ [message TypeError]\<rparr>)"
  by (simp add: processVideo_def try_block_def step1_def catch_block_def action_defs)

subsection \<open>The acknowledgement of an upload\<close>

text \<open>
  Claim C2: the acknowledgement of an accepted upload carries the derived job id, the
  stored file name without its extension, which is the id \<^verbatim>\<open>processVideo\<close> uses.

  The handler answers with \<^verbatim>\<open>req.file.filename\<close> under the key \<^verbatim>\<open>jobId\<close>: the
  stored file name with its extension. For the upload of \<^verbatim>\<open>movie.mp4\<close> the
  acknowledgement says \<^verbatim>\<open>1700000000000-movie.mp4\<close>, and the job id of
  \<^verbatim>\<open>processVideo\<close> is \<^verbatim>\<open>1700000000000-movie\<close>.
\<close>

theorem acknowledgement_carries_stored_filename:
  "fst (fst (upload exec
       \<lparr>reqFile = Some (stored_file 1700000000000 ''movie.mp4''), socketId = sid\<rparr> s))
     = Response 200 [(''message'', ''Upload successful, processing started''),
                     (''jobId'', ''1700000000000-movie.mp4'')]
   \<and> jobId (path (stored_file 1700000000000 ''movie.mp4'')) = ''1700000000000-movie''"
  by (simp add: upload_def Let_def stored_movie movie_jobId)

subsection \<open>Cleanup\<close>

lemma remove_temp_srt_eq:
  "remove_temp_srt fp s = (Inr (), s\<lparr>files := (files s)(localSrt fp := None)\<rparr>)"
  by (simp add: remove_temp_srt_def existsSync_def unlinkSync_def returnA_def fun_upd_idem)

lemma workspace_cleanup_eq:
  "workspace_cleanup fp s =
     (Inr (), s\<lparr>files := (files s)(localSrt fp := None, audioFile fp := None)\<rparr>)"
  by (simp add: workspace_cleanup_def thenA_def bindA_def remove_temp_srt_eq cleanup_eq)

text \<open>The \<^verbatim>\<open>try\<close> runs the cleanup on the files the burn command left: with a
  subscriber, a subtitle file and a burn command that succeeds, the files at the end of
  step 3 are those the cleanup leaves.\<close>

lemma step3_ends_with_workspace_cleanup:
  assumes "files s (generatedSrt fp) = Some content"
      and "fst (exec (burnCmd fp) ((files s)(localSrt fp \<mapsto> content))) = Inr out"
  shows "files (snd (step3 exec fp (Some k) s)) =
           files (snd (workspace_cleanup fp
             (s\<lparr>files := snd (exec (burnCmd fp) ((files s)(localSrt fp \<mapsto> content)))\<rparr>)))"
  using assms by (simp add: step3_Some workspace_cleanup_eq)

text \<open>
  Claim C3: the cleanup of the workspace (the guarded removals of lines 146 and 155)
  removes both the intermediate audio file and the temporary subtitle copy when they are
  present, it is idempotent, and it never fails, whichever of the two files is already
  absent: in every state it returns, with exactly these two paths taken off the disk.
  When the \<^verbatim>\<open>try\<close> of a job has run to its end, neither file is on disk.
\<close>

theorem cleanup_removes_both:
  "workspace_cleanup filePath s =
     (Inr (), s\<lparr>files := (files s)(localSrt filePath := None, audioFile filePath := None)\<rparr>)
   \<and> \<not> existsSync (audioFile filePath) (snd (workspace_cleanup filePath s))
   \<and> \<not> existsSync (localSrt filePath) (snd (workspace_cleanup filePath s))
   \<and> workspace_cleanup filePath (snd (workspace_cleanup filePath s))
       = (Inr (), snd (workspace_cleanup filePath s))
   \<and> (fst (try_block exec filePath socket s) = Inr () \<longrightarrow>
        \<not> existsSync (localSrt filePath) (snd (try_block exec filePath socket s))
        \<and> \<not> existsSync (audioFile filePath) (snd (try_block exec filePath socket s)))"
proof (cases socket)
  case None
  then show ?thesis
    by (simp add: workspace_cleanup_eq existsSync_def try_block_None)
next
  case (Some k)
  then show ?thesis
    by (simp add: workspace_cleanup_eq existsSync_def try_block_def thenA_def bindA_def
          step1_Some step2_Some step3_Some split: sum.splits option.splits)
qed

theorem cleanup_removes_both_witness:
  "existsSync (audioFile movie_path) leftover_state
   \<and> existsSync (localSrt movie_path) leftover_state
   \<and> fst (workspace_cleanup movie_path leftover_state) = Inr ()
   \<and> \<not> existsSync (audioFile movie_path) (snd (workspace_cleanup movie_path leftover_state))
   \<and> \<not> existsSync (localSrt movie_path) (snd (workspace_cleanup movie_path leftover_state))
   \<and> fst (workspace_cleanup movie_path state0) = Inr ()
   \<and> fst (try_block tools_ok movie_path (Some ''abc'') state0) = Inr ()
   \<and> \<not> existsSync (localSrt movie_path) (snd (try_block tools_ok movie_path (Some ''abc'') state0))
   \<and> \<not> existsSync (audioFile movie_path) (snd (try_block tools_ok movie_path (Some ''abc'') state0))"
proof -
  have present: "existsSync (audioFile movie_path) leftover_state
               \<and> existsSync (localSrt movie_path) leftover_state"
    by (simp add: existsSync_def leftover_state_def movie_paths)
  have ok: "fst (try_block tools_ok movie_path (Some ''abc'') state0) = Inr ()"
    by (rule tools_ok_succeeds)
  have a: "\<not> existsSync (localSrt movie_path) (snd (try_block tools_ok movie_path (Some ''abc'') state0))
         \<and> \<not> existsSync (audioFile movie_path) (snd (try_block tools_ok movie_path (Some ''abc'') state0))"
    using cleanup_removes_both [of movie_path state0 tools_ok "Some ''abc''"] ok
    by blast
  have b: "fst (workspace_cleanup movie_path leftover_state) = Inr ()
         \<and> \<not> existsSync (audioFile movie_path) (snd (workspace_cleanup movie_path leftover_state))
         \<and> \<not> existsSync (localSrt movie_path) (snd (workspace_cleanup movie_path leftover_state))"
    using cleanup_removes_both [of movie_path leftover_state tools_ok "Some ''abc''"]
    by (simp add: existsSync_def)
  have c: "fst (workspace_cleanup movie_path state0) = Inr ()"
    using cleanup_removes_both [of movie_path state0 tools_ok "Some ''abc''"]
    by simp
  from present ok a b c show ?thesis by blast
qed

subsection \<open>File names in command lines\<close>

text \<open>
  Claim C4: the name of the rendered video never embeds the original file name, it is
  built from the derived job id only, and every path passed to a subprocess command is
  quoted or escaped as a whole argument.

  The code wraps each path in double quotes and escapes nothing, and the job id is the
  stored file name, which ends with the original name. For the original name
  \<^verbatim>\<open>a" "b.mp4\<close> the name of the rendered video carries the text of the user, quotes
  included, and the shell reads the source path of the extraction command as two
  arguments: the path is not among the words of the command line.
\<close>

theorem quoted_path_split_at_quote:
  "finalVideoName quote_path = ''subtitled_1700000000000-'' @ quote_name
   \<and> shell_words (extractCmd quote_path) =
       [''ffmpeg'', ''-y'', ''-i'', ''/app/uploads/1700000000000-a'', ''b.mp4'',
        ''-ar'', ''16000'', ''-ac'', ''1'', ''-c:a'', ''pcm_s16le'',
        ''/app/uploads/1700000000000-a'', ''b.wav'']
   \<and> quote_path \<notin> set (shell_words (extractCmd quote_path))"
proof -
  have n: "finalVideoName quote_path = ''subtitled_1700000000000-'' @ quote_name"
    by (simp add: quote_path_eq quote_name_def finalVideoName_def jobId_def path_defs
          dquote_def)
  have w: "shell_words (extractCmd quote_path) =
       [''ffmpeg'', ''-y'', ''-i'', ''/app/uploads/1700000000000-a'', ''b.mp4'',
        ''-ar'', ''16000'', ''-ac'', ''1'', ''-c:a'', ''pcm_s16le'',
        ''/app/uploads/1700000000000-a'', ''b.wav'']"
    by (simp add: quote_path_eq extractCmd_def audioFile_def jobId_def quoted_def
          ffmpegPath_def isWin_False UPLOADS_DIR_def server_dirname_def path_defs
          shell_words_def word_of_def dquote_def squote_def backslash_def)
  have m: "quote_path \<notin> set (shell_words (extractCmd quote_path))"
    unfolding w by (simp add: quote_path_eq dquote_def)
  from n w m show ?thesis by blast
qed

text \<open>For comparison: the path of \<^verbatim>\<open>movie.mp4\<close> is one argument of the command.\<close>

lemma plain_path_is_one_argument:
  "shell_words (extractCmd movie_path) =
     [''ffmpeg'', ''-y'', ''-i'', ''/app/uploads/1700000000000-movie.mp4'',
      ''-ar'', ''16000'', ''-ac'', ''1'', ''-c:a'', ''pcm_s16le'',
      ''/app/uploads/1700000000000-movie.wav'']"
  by (simp add: movie_paths extractCmd_def quoted_def ffmpegPath_def isWin_False
        shell_words_def word_of_def dquote_def squote_def backslash_def)

subsection \<open>Failures of the tools\<close>

text \<open>
  Claim C5: when the transcription command was run and succeeded, and no subtitle file
  exists at the expected path \<^verbatim>\<open><outputs>/<id>.srt\<close>, the job fails with the
  missing-artifact error (the \<^verbatim>\<open>Error\<close> of line 133) and the burn command is never
  run. The error is caught: one error event carries its message and the promise is
  resolved.
\<close>

theorem missing_subtitle_fails_before_burn:
  assumes "whisperCmd fp \<in> set (job_commands exec fp name socket s)"
      and "fst (exec (whisperCmd fp) (snd (exec (extractCmd fp) (files s)))) = Inr out"
      and "snd (exec (whisperCmd fp) (snd (exec (extractCmd fp) (files s))))
             (generatedSrt fp) = None"
  shows "fst (try_block exec fp socket s) = Inl SrtNotGenerated
       \<and> job_commands exec fp name socket s = [extractCmd fp, whisperCmd fp]
       \<and> burnCmd fp \<notin> set (job_commands exec fp name socket s)
       \<and> errors_of (job_events exec fp name socket s) = [message SrtNotGenerated]
       \<and> fst (processVideo exec fp name socket s) = Inr ()"
proof (cases socket)
  case None
  with assms(1) show ?thesis by (simp add: job_None)
next
  case (Some k)
  show ?thesis
  proof (cases "fst (exec (extractCmd fp) (files s))")
    case (Inl msg)
    with Some assms(1) show ?thesis
      by (simp add: run_defs whisperCmd_neq_extractCmd)
  next
    case (Inr out1)
    with Some assms(2,3) show ?thesis
      by (simp add: run_defs cmd_neqs)
  qed
qed

theorem missing_subtitle_fails_before_burn_witness:
  "whisperCmd movie_path \<in> set (job_commands tools_silent movie_path ''movie.mp4'' (Some ''abc'') state0)
   \<and> fst (try_block tools_silent movie_path (Some ''abc'') state0) = Inl SrtNotGenerated
   \<and> job_commands tools_silent movie_path ''movie.mp4'' (Some ''abc'') state0
       = [extractCmd movie_path, whisperCmd movie_path]
   \<and> errors_of (job_events tools_silent movie_path ''movie.mp4'' (Some ''abc'') state0)
       = [''SRT file was not generated.'']"
proof -
  have h3: "snd (tools_silent (whisperCmd movie_path)
                  (snd (tools_silent (extractCmd movie_path) (files state0))))
              (generatedSrt movie_path) = None"
    by (simp add: tools_silent_def state0_def movie_paths)
  have h2: "fst (tools_silent (whisperCmd movie_path)
                  (snd (tools_silent (extractCmd movie_path) (files state0)))) = Inr []"
    by (simp add: tools_silent_def)
  have h1: "whisperCmd movie_path
              \<in> set (job_commands tools_silent movie_path ''movie.mp4'' (Some ''abc'') state0)"
    using h3 by (simp add: run_defs tools_silent_def)
  from missing_subtitle_fails_before_burn [OF h1 h2 h3] h1 show ?thesis by simp
qed

text \<open>
  Claim C6: when the audio extraction command was run and failed, neither the
  transcription command nor the burn command is run, and exactly one error event is
  emitted for the job.
\<close>

theorem extraction_failure_stops_job:
  assumes "extractCmd fp \<in> set (job_commands exec fp name socket s)"
      and "fst (exec (extractCmd fp) (files s)) = Inl msg"
  shows "job_commands exec fp name socket s = [extractCmd fp]
       \<and> whisperCmd fp \<notin> set (job_commands exec fp name socket s)
       \<and> burnCmd fp \<notin> set (job_commands exec fp name socket s)
       \<and> errors_of (job_events exec fp name socket s) = [msg]"
proof (cases socket)
  case None
  with assms(1) show ?thesis by (simp add: job_None)
next
  case (Some k)
  with assms(2) show ?thesis
    by (simp add: run_defs cmd_neqs)
qed

theorem extraction_failure_stops_job_witness:
  "extractCmd movie_path \<in> set (job_commands tools_failing movie_path ''movie.mp4'' (Some ''abc'') state0)
   \<and> fst (tools_failing (extractCmd movie_path) (files state0)) = Inl ''Command failed''
   \<and> job_commands tools_failing movie_path ''movie.mp4'' (Some ''abc'') state0
       = [extractCmd movie_path]
   \<and> errors_of (job_events tools_failing movie_path ''movie.mp4'' (Some ''abc'') state0)
       = [''Command failed'']"
proof -
  have h2: "fst (tools_failing (extractCmd movie_path) (files state0)) = Inl ''Command failed''"
    by (simp add: tools_failing_def)
  have h1: "extractCmd movie_path
              \<in> set (job_commands tools_failing movie_path ''movie.mp4'' (Some ''abc'') state0)"
    by (simp add: run_defs tools_failing_def)
  from extraction_failure_stops_job [OF h1 h2] h1 h2 show ?thesis by simp
qed

subsection \<open>Progress\<close>

text \<open>
  Claim C7: within every job the progress events are emitted in non-decreasing order, and
  when every stage succeeds (the \<^verbatim>\<open>try\<close> runs to its end) they are exactly 10, 30, 60,
  100.
\<close>

theorem progress_non_decreasing:
  "sorted (progress_of (job_events exec fp name socket s))
   \<and> (fst (try_block exec fp socket s) = Inr ()
      \<longrightarrow> progress_of (job_events exec fp name socket s) = [10, 30, 60, 100])"
proof (cases socket)
  case None
  then show ?thesis
    by (simp add: job_None try_block_None)
next
  case (Some k)
  then show ?thesis
    by (simp add: run_defs split: sum.splits option.splits)
qed

theorem progress_non_decreasing_witness:
  "fst (try_block tools_ok movie_path (Some ''abc'') state0) = Inr ()
   \<and> progress_of (job_events tools_ok movie_path ''movie.mp4'' (Some ''abc'') state0)
       = [10, 30, 60, 100]
   \<and> sorted (progress_of (job_events tools_failing movie_path ''movie.mp4'' (Some ''abc'') state0))"
proof -
  have ok: "fst (try_block tools_ok movie_path (Some ''abc'') state0) = Inr ()"
    by (rule tools_ok_succeeds)
  have a: "progress_of (job_events tools_ok movie_path ''movie.mp4'' (Some ''abc'') state0)
             = [10, 30, 60, 100]"
    using progress_non_decreasing [of tools_ok movie_path "''movie.mp4''" "Some ''abc''" state0] ok
    by blast
  have b: "sorted (progress_of (job_events tools_failing movie_path ''movie.mp4'' (Some ''abc'') state0))"
    using progress_non_decreasing [of tools_failing movie_path "''movie.mp4''" "Some ''abc''" state0]
    by blast
  from ok a b show ?thesis by blast
qed

subsection \<open>The upload of \<^verbatim>\<open>movie.mp4\<close>\<close>

text \<open>
  Claim C8: for the stored file name \<^verbatim>\<open>1700000000000-movie.mp4\<close> the derived job id is
  \<^verbatim>\<open>1700000000000-movie\<close>, the final artifact is
  \<^verbatim>\<open>outputs/subtitled_1700000000000-movie.mp4\<close> in the directory of the server, and the
  download reference delivered in the completion event is
  \<^verbatim>\<open>/download/subtitled_1700000000000-movie.mp4\<close>: a job that runs to its end emits
  one completion event, with this reference.
\<close>

theorem movie_scenario:
  "filename (stored_file 1700000000000 ''movie.mp4'') = ''1700000000000-movie.mp4''
   \<and> jobId movie_path = ''1700000000000-movie''
   \<and> finalVideo movie_path
       = path_join [server_dirname, ''outputs/subtitled_1700000000000-movie.mp4'']
   \<and> finalVideo movie_path = ''/app/outputs/subtitled_1700000000000-movie.mp4''
   \<and> downloadUrl movie_path = ''/download/subtitled_1700000000000-movie.mp4''
   \<and> (fst (try_block exec movie_path socket s) = Inr () \<longrightarrow>
        completions_of (job_events exec movie_path name socket s)
          = [''/download/subtitled_1700000000000-movie.mp4''])"
proof -
  have c: "fst (try_block exec movie_path socket s) = Inr () \<longrightarrow>
        completions_of (job_events exec movie_path name socket s) = [downloadUrl movie_path]"
  proof (cases socket)
    case None
    then show ?thesis by (simp add: try_block_None)
  next
    case (Some k)
    then show ?thesis
      by (simp add: run_defs split: sum.splits option.splits)
  qed
  show ?thesis
    using c
    by (simp add: stored_movie movie_path_eq movie_jobId movie_finalVideo
          movie_downloadUrl movie_final_relative)
qed

theorem movie_scenario_witness:
  "fst (try_block tools_ok movie_path (Some ''abc'') state0) = Inr ()
   \<and> completions_of (job_events tools_ok movie_path ''movie.mp4'' (Some ''abc'') state0)
       = [''/download/subtitled_1700000000000-movie.mp4'']"
proof -
  have ok: "fst (try_block tools_ok movie_path (Some ''abc'') state0) = Inr ()"
    by (rule tools_ok_succeeds)
  from movie_scenario [of tools_ok "Some ''abc''" state0 "''movie.mp4''"] ok
  show ?thesis by blast
qed

subsection \<open>A failed job\<close>

text \<open>
  Claim C9: for every job that ends in the failed state an error event and a mirrored
  log event are emitted, the error is never raised again, and the workspace is not
  cleaned on this path.

  The code breaks this for a job without a subscriber, by the missing guard of claim C1:
  the \<^verbatim>\<open>try\<close> fails with the \<^verbatim>\<open>TypeError\<close> of its first emission, no event is
  emitted, and the error leaves \<^verbatim>\<open>processVideo\<close> as a rejected promise.
\<close>

theorem failed_job_without_subscriber:
  "fst (try_block exec filePath None s) = Inl TypeError
   \<and> job_events exec filePath originalName None s = []
   \<and> fst (processVideo exec filePath originalName None s) = Inl TypeError"
  by (simp add: job_None try_block_None processVideo_def catch_block_def action_defs)

text \<open>With a subscriber the claim holds: the error of the \<^verbatim>\<open>try\<close> is caught, one error
  event and, last, the log line that mirrors it are emitted, and the files are left as
  the \<^verbatim>\<open>try\<close> left them. The audio file that the extraction wrote stays on disk when
  a later stage fails.\<close>

lemma failed_job_with_subscriber:
  assumes "fst (try_block exec fp (Some k) s) = Inl err"
  shows "fst (processVideo exec fp name (Some k) s) = Inr ()
       \<and> errors_of (job_events exec fp name (Some k) s) = [message err]
       \<and> last (job_events exec fp name (Some k) s)
           = LogEv (cross_mark @ '' Error: '' @ message err)
       \<and> files (snd (processVideo exec fp name (Some k) s))
           = files (snd (try_block exec fp (Some k) s))"
  using assms
  by (auto simp add: run_defs split: sum.splits option.splits)

lemma failed_job_leaves_audio:
  "fst (try_block tools_extract_only movie_path (Some ''abc'') state0)
     = Inl (ExecError ''Command failed'')
   \<and> existsSync (audioFile movie_path)
       (snd (processVideo tools_extract_only movie_path ''movie.mp4'' (Some ''abc'') state0))"
  by (simp add: run_defs tools_extract_only_def cmd_neqs existsSync_def)

subsection \<open>The original file name\<close>

text \<open>
  Claim C10: for every stored file path and subscriber, what the job does (commands run,
  files produced, events emitted) is the same for any two values of the original file
  name: \<^verbatim>\<open>processVideo\<close> receives \<^verbatim>\<open>originalName\<close> and never uses it, and the
  upload handler passes it to nothing else, so that the name acts only through the stored
  file name.
\<close>

theorem originalName_unused:
  "processVideo exec filePath name1 socket s = processVideo exec filePath name2 socket s
   \<and> upload exec \<lparr>reqFile = Some (f\<lparr>originalname := name1\<rparr>), socketId = sid\<rparr> s
     = upload exec \<lparr>reqFile = Some (f\<lparr>originalname := name2\<rparr>), socketId = sid\<rparr> s"
  by (simp add: processVideo_def upload_def Let_def)

end
